theory Spec2Isabelle
  imports Complex_Main
begin

section \<open>The fluid parameter store (useFluidStore.ts)\<close>

text \<open>
  A JavaScript number is modelled as a real: the store and the control panel only carry
  numbers around and compare them with bounds, no rounding arithmetic is involved.
\<close>

type_synonym number = real

text \<open>The data fields of \<^verbatim>\<open>interface FluidState\<close>; the setters are the functions below.\<close>

record FluidState =
  resolution :: number
  dt :: number
  isBFECC :: bool
  mouseForce :: number
  cursorSize :: number
  viscosity :: number
  poissonIterations :: number
  viscousIterations :: number
  isBounce :: bool

text \<open>
  The argument of zustand's \<^verbatim>\<open>set\<close>: an object holding some of the fields
  (\<^verbatim>\<open>Partial<FluidState>\<close>). A key that is not in the object is \<open>None\<close>.
\<close>

record FluidPartial =
  p_resolution :: "number option"
  p_dt :: "number option"
  p_isBFECC :: "bool option"
  p_mouseForce :: "number option"
  p_cursorSize :: "number option"
  p_viscosity :: "number option"
  p_poissonIterations :: "number option"
  p_viscousIterations :: "number option"
  p_isBounce :: "bool option"

definition no_keys :: FluidPartial where
  "no_keys = \<lparr>p_resolution = None, p_dt = None, p_isBFECC = None, p_mouseForce = None,
     p_cursorSize = None, p_viscosity = None, p_poissonIterations = None,
     p_viscousIterations = None, p_isBounce = None\<rparr>"

definition pick :: "'a option \<Rightarrow> 'a \<Rightarrow> 'a" where
  "pick new old = (case new of None \<Rightarrow> old | Some v \<Rightarrow> v)"

text \<open>
  zustand's \<^verbatim>\<open>set(partial)\<close> replaces the state by
  \<^verbatim>\<open>Object.assign({}, state, partial)\<close>: the keys of the partial object win, every
  other key keeps its value.
\<close>

definition set_state :: "FluidPartial \<Rightarrow> FluidState \<Rightarrow> FluidState" where
  "set_state p s =
     \<lparr>resolution = pick (p_resolution p) (resolution s),
      dt = pick (p_dt p) (dt s),
      isBFECC = pick (p_isBFECC p) (isBFECC s),
      mouseForce = pick (p_mouseForce p) (mouseForce s),
      cursorSize = pick (p_cursorSize p) (cursorSize s),
      viscosity = pick (p_viscosity p) (viscosity s),
      poissonIterations = pick (p_poissonIterations p) (poissonIterations s),
      viscousIterations = pick (p_viscousIterations p) (viscousIterations s),
      isBounce = pick (p_isBounce p) (isBounce s)\<rparr>"


definition setResolution :: "number \<Rightarrow> FluidState \<Rightarrow> FluidState" where
  "setResolution resolution' = set_state (no_keys\<lparr>p_resolution := Some resolution'\<rparr>)"

definition setDt :: "number \<Rightarrow> FluidState \<Rightarrow> FluidState" where
  "setDt dt' = set_state (no_keys\<lparr>p_dt := Some dt'\<rparr>)"

definition setIsBFECC :: "bool \<Rightarrow> FluidState \<Rightarrow> FluidState" where
  "setIsBFECC isBFECC' = set_state (no_keys\<lparr>p_isBFECC := Some isBFECC'\<rparr>)"

definition setMouseForce :: "number \<Rightarrow> FluidState \<Rightarrow> FluidState" where
  "setMouseForce mouseForce' = set_state (no_keys\<lparr>p_mouseForce := Some mouseForce'\<rparr>)"

definition setCursorSize :: "number \<Rightarrow> FluidState \<Rightarrow> FluidState" where
  "setCursorSize cursorSize' = set_state (no_keys\<lparr>p_cursorSize := Some cursorSize'\<rparr>)"

definition setViscosity :: "number \<Rightarrow> FluidState \<Rightarrow> FluidState" where
  "setViscosity viscosity' = set_state (no_keys\<lparr>p_viscosity := Some viscosity'\<rparr>)"

definition setPoissonIterations :: "number \<Rightarrow> FluidState \<Rightarrow> FluidState" where
  "setPoissonIterations poissonIterations' =
     set_state (no_keys\<lparr>p_poissonIterations := Some poissonIterations'\<rparr>)"

definition setViscousIterations :: "number \<Rightarrow> FluidState \<Rightarrow> FluidState" where
  "setViscousIterations viscousIterations' =
     set_state (no_keys\<lparr>p_viscousIterations := Some viscousIterations'\<rparr>)"

definition setIsBounce :: "bool \<Rightarrow> FluidState \<Rightarrow> FluidState" where
  "setIsBounce isBounce' = set_state (no_keys\<lparr>p_isBounce := Some isBounce'\<rparr>)"

section \<open>The control panel (ControlPanel.tsx)\<close>





section \<open>The error boundary (ErrorBoundary.tsx) and the page (index.tsx)\<close>

text \<open>
  A thrown JavaScript \<^verbatim>\<open>Error\<close>: its name, its message and its stack trace. The message
  is \<open>None\<close> when the thrown value has none; \<^verbatim>\<open>new Error()\<close> has the empty message.
\<close>

record Error =
  err_name :: string
  message :: "string option"
  stack :: "string option"

text \<open>React's \<^verbatim>\<open>ErrorInfo\<close>, which React builds and hands to \<^verbatim>\<open>componentDidCatch\<close>.\<close>

record ErrorInfo =
  componentStack :: string

record ErrorBoundaryState =
  hasError :: bool
  error :: "Error option"

record 'c ErrorBoundaryProps =
  children :: 'c


text \<open>
  \<^verbatim>\<open>getDerivedStateFromError\<close> returns \<^verbatim>\<open>{ hasError: true, error }\<close>. React merges
  the returned object into the state; it holds both keys of the state, so it is the new state.
\<close>

definition getDerivedStateFromError :: "Error \<Rightarrow> ErrorBoundaryState" where
  "getDerivedStateFromError e = \<lparr>hasError = True, error = Some e\<rparr>"

text \<open>
  \<^verbatim>\<open>componentDidCatch\<close> writes one line to the console, modelled as the list of the
  lines written so far.
\<close>

type_synonym console = "(string \<times> Error \<times> ErrorInfo) list"

definition componentDidCatch :: "Error \<Rightarrow> ErrorInfo \<Rightarrow> console \<Rightarrow> console" where
  "componentDidCatch e errorInfo out = out @ [(''Uncaught error:'', e, errorInfo)]"

text \<open>What a click can do: the one handler of the file is \<^verbatim>\<open>window.location.reload()\<close>.\<close>

datatype handler = WindowLocationReload

record Button =
  intent :: string
  onClick :: handler
  button_text :: string

record NonIdealState =
  icon :: string
  title :: string
  description :: string
  action :: Button

text \<open>What \<^verbatim>\<open>render\<close> returns: the fallback card, or the children as they are.\<close>

datatype 'c rendered = Card NonIdealState | Children 'c

text \<open>
  \<^verbatim>\<open>this.state.error?.message || 'An error occurred in the fluid simulation.'\<close>: the
  right-hand side is taken when there is no error, no message, or the empty message.
\<close>

definition description_of :: "Error option \<Rightarrow> string" where
  "description_of err =
     (case err of
        None \<Rightarrow> ''An error occurred in the fluid simulation.''
      | Some e \<Rightarrow>
          (case message e of
             None \<Rightarrow> ''An error occurred in the fluid simulation.''
           | Some m \<Rightarrow> if m = [] then ''An error occurred in the fluid simulation.'' else m))"

definition render :: "'c ErrorBoundaryProps \<Rightarrow> ErrorBoundaryState \<Rightarrow> 'c rendered" where
  "render props st =
     (if hasError st then
        Card \<lparr>icon = ''error'', title = ''Something went wrong'',
              description = description_of (error st),
              action = \<lparr>intent = ''primary'', onClick = WindowLocationReload,
                         button_text = ''Reload Page''\<rparr>\<rparr>
      else Children (children props))"

text \<open>
  The life of one mounted boundary. Its state changes in one place only: when a descendant
  throws, React calls \<^verbatim>\<open>getDerivedStateFromError\<close> and then \<^verbatim>\<open>componentDidCatch\<close>.
  A re-render (new props from the parent) leaves the state as it is. The class has no
  \<^verbatim>\<open>setState\<close> call and no other lifecycle method.
\<close>

datatype event = ChildThrows Error ErrorInfo | Rerender

record boundary =
  state :: ErrorBoundaryState
  console_out :: console


fun step :: "boundary \<Rightarrow> event \<Rightarrow> boundary" where
  "step b (ChildThrows e errorInfo) =
     \<lparr>state = getDerivedStateFromError e,
      console_out = componentDidCatch e errorInfo (console_out b)\<rparr>"
| "step b Rerender = b"

definition run :: "boundary \<Rightarrow> event list \<Rightarrow> boundary" where
  "run b evs = foldl step b evs"

text \<open>The error the boundary holds after a catch of \<open>e\<close> followed by the events \<open>evs\<close>.\<close>

fun last_thrown :: "Error \<Rightarrow> event list \<Rightarrow> Error" where
  "last_thrown e [] = e"
| "last_thrown e (ChildThrows e' errorInfo # evs) = last_thrown e' evs"
| "last_thrown e (Rerender # evs) = last_thrown e evs"



section \<open>The simulation component (FluidSimulation.tsx, as given in .setup)\<close>

text \<open>The viewport size \<^verbatim>\<open>useThree().size\<close>.\<close>

record Size =
  width :: number
  height :: number

text \<open>
  The parameters are constants of the component (\<^verbatim>\<open>const resolution = 0.4\<close> and so on);
  the component does not read the store. Four of the names are also fields of the store,
  so the constants carry the prefix \<open>sim\<close>.
\<close>

definition sim_resolution :: number where "sim_resolution = 0.4"
definition sim_dt :: number where "sim_dt = 0.014"
definition sim_isBFECC :: bool where "sim_isBFECC = True"
definition mouse_force :: number where "mouse_force = 20"
definition cursor_size :: number where "cursor_size = 100"
definition viscous :: number where "viscous = 30"
definition iterations_poisson :: number where "iterations_poisson = 32"
definition iterations_viscous :: number where "iterations_viscous = 32"
definition sim_isBounce :: bool where "sim_isBounce = True"

datatype three_constant = RGBAFormat | LinearFilter | FloatType

record FBOSettings_type =
  format :: three_constant
  minFilter :: three_constant
  magFilter :: three_constant
  texel_type :: three_constant

definition FBOSettings :: FBOSettings_type where
  "FBOSettings = \<lparr>format = RGBAFormat, minFilter = LinearFilter, magFilter = LinearFilter,
     texel_type = FloatType\<rparr>"

text \<open>
  A render target as three.js constructs it: \<^verbatim>\<open>new WebGLRenderTarget(width, height,
  options)\<close> keeps the two numbers it is given and the options. The objects live in a store
  of render targets; an object is known by its address, the position in the store, and
  \<^verbatim>\<open>new\<close> appends.
\<close>

record WebGLRenderTarget =
  rt_width :: number
  rt_height :: number
  rt_options :: FBOSettings_type

type_synonym address = nat
type_synonym targets = "WebGLRenderTarget list"

definition new_WebGLRenderTarget ::
  "number \<Rightarrow> number \<Rightarrow> FBOSettings_type \<Rightarrow> targets \<Rightarrow> address \<times> targets" where
  "new_WebGLRenderTarget w h opts store =
     (length store, store @ [\<lparr>rt_width = w, rt_height = h, rt_options = opts\<rparr>])"

text \<open>The six scenes, each created once by \<^verbatim>\<open>useState(() => new THREE.Scene())\<close>.\<close>

datatype scene =
  advectionSolveScene | forceSolveScene | viscousSolveScene | divergenceSolveScene
| poissonSolveScene | pressureSolveScene

text \<open>
  What the hooks of one mounted instance hold between renders: the two \<^verbatim>\<open>useState\<close>
  values taken from the size at the first render, the two \<^verbatim>\<open>useMemo(..., [])\<close> render
  targets, and the renderer flag that the effect \<^verbatim>\<open>gl.autoClear = false\<close> sets.
\<close>

record hooks =
  screenWidth :: number
  screenHeight :: number
  fbo_vel_0 :: address
  fbo_vel_1 :: address
  gl_autoClear :: bool

datatype program =
  AdvectionSolveProgram | ExternalForceProgram | ViscousSolveProgram
| DivergenceSolveProgram | PoissonSolveProgram | PressureSolveProgram | ColorProgram

text \<open>
  The value of a JSX prop. A component of an array is \<open>None\<close> where JavaScript's
  division gives no finite number (\<^verbatim>\<open>1 / 0\<close>).
\<close>

datatype prop_value =
  Num number | Flag bool | Arr "number option list" | Target address | SceneRef scene | Camera

record element =
  program :: program
  props :: "(string \<times> prop_value) list"

definition js_recip :: "number \<Rightarrow> number option" where
  "js_recip x = (if x = 0 then None else Some (1 / x))"

text \<open>
  The first render runs the initialisers of \<^verbatim>\<open>useState\<close> and \<^verbatim>\<open>useMemo\<close> (and
  the effect after it); every later render gets the kept values back, whatever the size is
  by then: the dependency lists are empty and the state setters are never taken.
\<close>

definition use_hooks :: "Size \<Rightarrow> hooks option \<times> targets \<Rightarrow> hooks \<times> targets" where
  "use_hooks viewport inst =
     (case fst inst of
        Some h \<Rightarrow> (h, snd inst)
      | None \<Rightarrow>
          (let sw = width viewport; sh = height viewport;
               (a0, store0) = new_WebGLRenderTarget (sw * sim_resolution) (sh * sim_resolution)
                                FBOSettings (snd inst);
               (a1, store1) = new_WebGLRenderTarget (sw * sim_resolution) (sh * sim_resolution)
                                FBOSettings store0
           in (\<lparr>screenWidth = sw, screenHeight = sh, fbo_vel_0 = a0, fbo_vel_1 = a1,
                 gl_autoClear = False\<rparr>, store1)))"

definition cellScale_of :: "hooks \<Rightarrow> prop_value" where
  "cellScale_of h =
     Arr [js_recip (screenWidth h * sim_resolution), js_recip (screenHeight h * sim_resolution)]"

definition boundarySpace_of :: "hooks \<Rightarrow> prop_value" where
  "boundarySpace_of h = (if sim_isBounce then Arr [Some 0, Some 0] else Arr [])"

text \<open>The fragment the component returns: seven elements, in this order.\<close>

definition passes :: "hooks \<Rightarrow> element list" where
  "passes h =
     [\<lparr>program = AdvectionSolveProgram,
       props = [(''scene'', SceneRef advectionSolveScene), (''camera'', Camera),
                (''isBounce'', Flag sim_isBounce), (''cellScale'', cellScale_of h),
                (''fboSize'', Arr [Some (screenWidth h * sim_resolution),
                                   Some (screenHeight h * sim_resolution)]),
                (''dt'', Num sim_dt), (''src'', Target (fbo_vel_0 h)),
                (''dst'', Target (fbo_vel_1 h)), (''isBFECC'', Flag sim_isBFECC)]\<rparr>,
      \<lparr>program = ExternalForceProgram,
       props = [(''scene'', SceneRef forceSolveScene), (''camera'', Camera),
                (''cellScale'', cellScale_of h),
                (''scale'', Arr [Some cursor_size, Some cursor_size]),
                (''mouse_force'', Num mouse_force), (''dst'', Target (fbo_vel_1 h))]\<rparr>,
      \<lparr>program = ViscousSolveProgram,
       props = [(''scene'', SceneRef viscousSolveScene), (''camera'', Camera),
                (''iterations_viscous'', Num iterations_viscous),
                (''cellScale'', cellScale_of h),
                (''boundarySpace'',
                   if sim_isBounce then Arr [Some 0, Some 0]
                   else Arr [js_recip (screenWidth h * sim_resolution),
                             js_recip (screenHeight h * sim_resolution)]),
                (''viscous'', Num viscous), (''src'', Target (fbo_vel_1 h)),
                (''dt'', Num sim_dt)]\<rparr>,
      \<lparr>program = DivergenceSolveProgram,
       props = [(''scene'', SceneRef divergenceSolveScene), (''camera'', Camera),
                (''cellScale'', cellScale_of h), (''boundarySpace'', boundarySpace_of h),
                (''dt'', Num sim_dt)]\<rparr>,
      \<lparr>program = PoissonSolveProgram,
       props = [(''scene'', SceneRef poissonSolveScene), (''camera'', Camera),
                (''cellScale'', cellScale_of h), (''boundarySpace'', boundarySpace_of h),
                (''iterations_poisson'', Num iterations_poisson)]\<rparr>,
      \<lparr>program = PressureSolveProgram,
       props = [(''scene'', SceneRef pressureSolveScene), (''camera'', Camera),
                (''cellScale'', cellScale_of h), (''boundarySpace'', boundarySpace_of h),
                (''dt'', Num sim_dt)]\<rparr>,
      \<lparr>program = ColorProgram, props = [(''src'', Target (fbo_vel_0 h))]\<rparr>]"

text \<open>One render of the component: the hooks, then the fragment.\<close>

definition FluidSimulation ::
  "Size \<Rightarrow> hooks option \<times> targets \<Rightarrow> (hooks option \<times> targets) \<times> element list" where
  "FluidSimulation viewport inst =
     (let (h, store) = use_hooks viewport inst in ((Some h, store), passes h))"

text \<open>
  The instance after a first render and the renders that follow it, one per viewport size
  of the list, starting unmounted on a store of render targets.
\<close>

definition renders ::
  "targets \<Rightarrow> Size \<Rightarrow> Size list \<Rightarrow> (hooks option \<times> targets) \<times> element list" where
  "renders store0 viewport0 viewports =
     foldl (\<lambda>r viewport. FluidSimulation viewport (fst r))
       (FluidSimulation viewport0 (None, store0)) viewports"

text \<open>The buffers a pass is handed: \<open>src\<close> is what it samples, \<open>dst\<close> what it renders into.\<close>

definition target_prop :: "string \<Rightarrow> element \<Rightarrow> address list" where
  "target_prop key el = (case map_of (props el) key of Some (Target a) \<Rightarrow> [a] | _ \<Rightarrow> [])"

definition writes :: "element \<Rightarrow> address list" where
  "writes el = target_prop ''dst'' el"

definition reads :: "element \<Rightarrow> address list" where
  "reads el = target_prop ''src'' el"

text \<open>
  Modelled from the spec: the body of \<^verbatim>\<open>ExternalForceProgram\<close> is not in the sources.
  Its input is the velocity write field, in place, after advection (4.3): the impulse is
  added to what the destination holds, so the destination is also what it takes in. Every
  other pass takes in its \<open>src\<close>.
\<close>

definition takes_in :: "element \<Rightarrow> address list" where
  "takes_in el = (if program el = ExternalForceProgram then reads el @ writes el else reads el)"

text \<open>The stage of the pipeline each program carries out (README, Shader Programs).\<close>

datatype stage =
  Advection | ForceInjection | ViscousDiffusion | Divergence | PressureSolve | Projection
| ColorVisualization

fun stage_of :: "program \<Rightarrow> stage" where
  "stage_of AdvectionSolveProgram = Advection"
| "stage_of ExternalForceProgram = ForceInjection"
| "stage_of ViscousSolveProgram = ViscousDiffusion"
| "stage_of DivergenceSolveProgram = Divergence"
| "stage_of PoissonSolveProgram = PressureSolve"
| "stage_of PressureSolveProgram = Projection"
| "stage_of ColorProgram = ColorVisualization"

text \<open>
  Modelled from the spec: the frame tick is not in the sources (the programs' bodies and
  their frame callbacks are missing). These are the two moments of a stage that the tick
  records: when it begins, and when its writes are complete and visible.
\<close>

datatype tick_event = Begins stage | WritesVisible stage

text \<open>
  Modelled from the spec: the orchestrator runs on one thread and invokes the stages one
  after the other, in the order of the fragment, each to completion over the whole grid
  (4.9, 5). What a stage does to the buffers is the function \<open>exec\<close>.
\<close>

fun tick ::
  "(element \<Rightarrow> 'b \<Rightarrow> 'b) \<Rightarrow> element list \<Rightarrow> 'b \<times> tick_event list \<Rightarrow> 'b \<times> tick_event list" where
  "tick exec [] (buffers, trace) = (buffers, trace)"
| "tick exec (el # els) (buffers, trace) =
     tick exec els
       (exec el buffers,
        trace @ [Begins (stage_of (program el)), WritesVisible (stage_of (program el))])"

section \<open>The stages of the pipeline, from the specification\<close>

text \<open>
  Modelled from the spec: the bodies of the seven programs (\<^verbatim>\<open>Effect.tsx\<close> and the shader
  programs the component imports) are not in the sources, so the stages are written from
  sections 3 and 4 of the specification, each as a function from the fields it reads to the
  field it writes (section 9). Numbers are reals. A texel of the velocity is a pair.
\<close>

type_synonym vec = "real \<times> real"

text \<open>
  Modelled from the spec: a field is a grid of texels, row by row:
  \<open>g ! y ! x\<close> (3).
\<close>

type_synonym 'a field = "'a list list"

text \<open>
  Modelled from the spec: a stage assigns every texel of the field it writes exactly once
  (4.2); this is the field of width \<open>w\<close> and height \<open>h\<close> whose
  texel at \<open>(x, y)\<close> is \<open>f x y\<close>.
\<close>

definition tabulate :: "nat \<Rightarrow> nat \<Rightarrow> (nat \<Rightarrow> nat \<Rightarrow> 'a) \<Rightarrow> 'a field" where
  "tabulate w h f = map (\<lambda>y. map (\<lambda>x. f x y) [0..<w]) [0..<h]"

text \<open>
  Modelled from the spec: reading a texel; outside the grid there is nothing to read and
  \<open>d\<close> is returned.
\<close>

definition texel :: "'a \<Rightarrow> 'a field \<Rightarrow> nat \<Rightarrow> nat \<Rightarrow> 'a" where
  "texel d g x y =
     (if y < length g then (if x < length (g ! y) then g ! y ! x else d) else d)"

text \<open>Modelled from the spec: the sum of two two-component texels (3).\<close>

fun vadd :: "vec \<Rightarrow> vec \<Rightarrow> vec" where
  "vadd (a, b) (c, d) = (a + c, b + d)"

text \<open>Modelled from the spec: the difference of two two-component texels (3).\<close>

fun vsub :: "vec \<Rightarrow> vec \<Rightarrow> vec" where
  "vsub (a, b) (c, d) = (a - c, b - d)"

text \<open>
  Modelled from the spec: the product of two two-component texels, component by component
  (3).
\<close>

fun vmul :: "vec \<Rightarrow> vec \<Rightarrow> vec" where
  "vmul (a, b) (c, d) = (a * c, b * d)"

text \<open>Modelled from the spec: a two-component texel times a number (3).\<close>

fun vscale :: "real \<Rightarrow> vec \<Rightarrow> vec" where
  "vscale k (a, b) = (k * a, k * b)"

text \<open>
  Modelled from the spec: the size of a cell in normalised coordinates, as the component
  passes it to every program.
\<close>

definition cellScale :: "nat \<Rightarrow> nat \<Rightarrow> vec" where
  "cellScale w h = (1 / real w, 1 / real h)"

text \<open>
  Modelled from the spec: the boundary policy on an index that may lie outside
  \<open>0..<n\<close>: clamped to the edge (2).
\<close>

definition clamp_index :: "nat \<Rightarrow> int \<Rightarrow> nat" where
  "clamp_index n i = (if i < 0 then 0 else if int n \<le> i then n - 1 else nat i)"

text \<open>
  Modelled from the spec: the boundary policy on an index that may lie outside
  \<open>0..<n\<close>: mirrored at the edge it lies beyond (2).
\<close>

definition mirror_index :: "nat \<Rightarrow> int \<Rightarrow> nat" where
  "mirror_index n i =
     clamp_index n (if i < 0 then - 1 - i else if int n \<le> i then 2 * int n - 1 - i else i)"

text \<open>
  Modelled from the spec: the boundary policy at a sample point: mirror in bounce mode,
  clamp to the edge otherwise (4.2).
\<close>

definition sample_index :: "bool \<Rightarrow> nat \<Rightarrow> int \<Rightarrow> nat" where
  "sample_index bounce n i = (if bounce then mirror_index n i else clamp_index n i)"

text \<open>
  Modelled from the spec: the four texels around a position given in normalised
  coordinates, the boundary policy applied at the sample point (4.2).
\<close>

definition corners :: "bool \<Rightarrow> nat \<Rightarrow> nat \<Rightarrow> vec field \<Rightarrow> vec \<Rightarrow> vec \<times> vec \<times> vec \<times> vec" where
  "corners bounce w h g p =
     (let i = \<lfloor>fst p * real w - 1 / 2\<rfloor>; j = \<lfloor>snd p * real h - 1 / 2\<rfloor>;
          x0 = sample_index bounce w i; x1 = sample_index bounce w (i + 1);
          y0 = sample_index bounce h j; y1 = sample_index bounce h (j + 1)
      in (texel (0, 0) g x0 y0, texel (0, 0) g x1 y0, texel (0, 0) g x0 y1,
          texel (0, 0) g x1 y1))"

text \<open>Modelled from the spec: linear interpolation between two texels (4.2).\<close>

definition lerp :: "real \<Rightarrow> vec \<Rightarrow> vec \<Rightarrow> vec" where
  "lerp t a b = vadd (vscale (1 - t) a) (vscale t b)"

text \<open>
  Modelled from the spec: bilinear interpolation of the four texels around the position
  (4.2).
\<close>

definition bilinear :: "bool \<Rightarrow> nat \<Rightarrow> nat \<Rightarrow> vec field \<Rightarrow> vec \<Rightarrow> vec" where
  "bilinear bounce w h g p =
     (let fx = fst p * real w - 1 / 2; fy = snd p * real h - 1 / 2;
          tx = fx - of_int \<lfloor>fx\<rfloor>; ty = fy - of_int \<lfloor>fy\<rfloor>
      in case corners bounce w h g p of
           (c00, c10, c01, c11) \<Rightarrow> lerp ty (lerp tx c00 c10) (lerp tx c01 c11))"

text \<open>Modelled from the spec: the centre of a texel in normalised coordinates.\<close>

definition centre :: "nat \<Rightarrow> nat \<Rightarrow> nat \<Rightarrow> nat \<Rightarrow> vec" where
  "centre w h x y = ((real x + 1 / 2) / real w, (real y + 1 / 2) / real h)"

text \<open>
  Modelled from the spec: the backward-traced source position
  \<open>p' = p - velocity(p) * dt * cellScale\<close> of a texel (4.2).
\<close>

definition backtrace :: "real \<Rightarrow> nat \<Rightarrow> nat \<Rightarrow> vec field \<Rightarrow> nat \<Rightarrow> nat \<Rightarrow> vec" where
  "backtrace step_dt w h vel x y =
     vsub (centre w h x y) (vscale step_dt (vmul (texel (0, 0) vel x y) (cellScale w h)))"

text \<open>
  Modelled from the spec: the semi-Lagrangian transport of a field \<open>q\<close> along
  the velocity: every texel is the sample of \<open>q\<close> at its backward-traced
  position (4.2).
\<close>

definition transport :: "bool \<Rightarrow> real \<Rightarrow> nat \<Rightarrow> nat \<Rightarrow> vec field \<Rightarrow> vec field \<Rightarrow> vec field" where
  "transport bounce step_dt w h vel q =
     tabulate w h (\<lambda>x y. bilinear bounce w h q (backtrace step_dt w h vel x y))"

text \<open>Modelled from the spec: a number clamped between two bounds (4.2).\<close>

definition between :: "real \<Rightarrow> real \<Rightarrow> real \<Rightarrow> real" where
  "between lo hi x = max lo (min hi x)"

text \<open>
  Modelled from the spec: the clamp of a corrected sample to the minimum and maximum of
  the neighbourhood, component by component (4.2).
\<close>

fun neighbourhood_clamp :: "vec \<times> vec \<times> vec \<times> vec \<Rightarrow> vec \<Rightarrow> vec" where
  "neighbourhood_clamp (a, b, c, d) v =
     (between (min (min (fst a) (fst b)) (min (fst c) (fst d)))
              (max (max (fst a) (fst b)) (max (fst c) (fst d))) (fst v),
      between (min (min (snd a) (snd b)) (min (snd c) (snd d)))
              (max (max (snd a) (snd b)) (max (snd c) (snd d))) (snd v))"

text \<open>
  Modelled from the spec: advection of the velocity along itself (4.2). With BFECC: advect
  forward, advect the result backward, take half the difference from the original as the
  error, correct the forward result by it, and clamp to the neighbourhood of the sample
  point.
\<close>

definition advection :: "bool \<Rightarrow> bool \<Rightarrow> real \<Rightarrow> nat \<Rightarrow> nat \<Rightarrow> vec field \<Rightarrow> vec field" where
  "advection bfecc bounce step_dt w h vel =
     (if bfecc then
        (let forward = transport bounce step_dt w h vel vel;
             backward = transport bounce (- step_dt) w h vel forward
         in tabulate w h (\<lambda>x y.
              neighbourhood_clamp (corners bounce w h vel (backtrace step_dt w h vel x y))
                (vsub (texel (0, 0) forward x y)
                   (vscale (1 / 2) (vsub (texel (0, 0) backward x y) (texel (0, 0) vel x y))))))
      else transport bounce step_dt w h vel vel)"

text \<open>
  Modelled from the spec: the pointer state (3): current and previous normalised position,
  and the active flag.
\<close>

record Pointer =
  current :: vec
  previous :: vec
  active :: bool

text \<open>
  Modelled from the spec: the force stage (4.3). With an active pointer, every texel
  within \<open>cursorSize\<close> grid cells of the pointer gets an impulse proportional
  to the displacement of the pointer and to \<open>mouseForce\<close>, scaled by the
  falloff of its relative squared distance. With an inactive pointer the stage passes the
  field on.
\<close>

definition external_force ::
  "(real \<Rightarrow> real) \<Rightarrow> real \<Rightarrow> real \<Rightarrow> Pointer \<Rightarrow> nat \<Rightarrow> nat \<Rightarrow> vec field \<Rightarrow> vec field" where
  "external_force falloff force radius ptr w h vel =
     (if active ptr then
        tabulate w h (\<lambda>x y.
          let dx = real x + 1 / 2 - fst (current ptr) * real w;
              dy = real y + 1 / 2 - snd (current ptr) * real h;
              d2 = dx * dx + dy * dy
          in if d2 < radius * radius then
               vadd (texel (0, 0) vel x y)
                 (vscale (force * falloff (d2 / (radius * radius)))
                    (vsub (current ptr) (previous ptr)))
             else texel (0, 0) vel x y)
      else vel)"

text \<open>
  Modelled from the spec: the velocity of a neighbour that may lie outside the grid (4.4,
  4.5): in bounce mode the value at the wall is negated, otherwise the edge value is
  taken.
\<close>

definition neighbour_velocity :: "bool \<Rightarrow> nat \<Rightarrow> nat \<Rightarrow> vec field \<Rightarrow> int \<Rightarrow> int \<Rightarrow> vec" where
  "neighbour_velocity bounce w h g i j =
     (if 0 \<le> i \<and> i < int w \<and> 0 \<le> j \<and> j < int h then texel (0, 0) g (nat i) (nat j)
      else if bounce then vscale (- 1) (texel (0, 0) g (clamp_index w i) (clamp_index h j))
      else texel (0, 0) g (clamp_index w i) (clamp_index h j))"

text \<open>
  Modelled from the spec: one Jacobi pass of the implicit diffusion (4.4): a weighted
  average of the original value and the four neighbours of the previous iterate, the
  weights given by viscosity and time step.
\<close>

definition viscous_pass ::
  "bool \<Rightarrow> real \<Rightarrow> real \<Rightarrow> nat \<Rightarrow> nat \<Rightarrow> vec field \<Rightarrow> vec field \<Rightarrow> vec field" where
  "viscous_pass bounce visc step_dt w h original cur =
     tabulate w h (\<lambda>x y.
       vscale (1 / (1 + 4 * (visc * step_dt)))
         (vadd (texel (0, 0) original x y)
            (vscale (visc * step_dt)
               (vadd (vadd (neighbour_velocity bounce w h cur (int x - 1) (int y))
                           (neighbour_velocity bounce w h cur (int x + 1) (int y)))
                     (vadd (neighbour_velocity bounce w h cur (int x) (int y - 1))
                           (neighbour_velocity bounce w h cur (int x) (int y + 1)))))))"

text \<open>
  Modelled from the spec: the loop of the diffusion stage: exactly the given number of
  passes, regardless of convergence (4.4).
\<close>

fun viscous_loop :: "nat \<Rightarrow> (vec field \<Rightarrow> vec field) \<Rightarrow> vec field \<Rightarrow> vec field" where
  "viscous_loop 0 pass cur = cur"
| "viscous_loop (Suc n) pass cur = viscous_loop n pass (pass cur)"

text \<open>
  Modelled from the spec: the diffusion stage: the loop started from the field it is
  given, which is also the original of every pass (4.4).
\<close>

definition viscous_diffusion ::
  "nat \<Rightarrow> bool \<Rightarrow> real \<Rightarrow> real \<Rightarrow> nat \<Rightarrow> nat \<Rightarrow> vec field \<Rightarrow> vec field" where
  "viscous_diffusion iterations bounce visc step_dt w h vel =
     viscous_loop iterations (viscous_pass bounce visc step_dt w h vel) vel"

text \<open>
  Modelled from the spec: the divergence by central differences, scaled by the cell scale;
  one pass (4.5).
\<close>

definition divergence :: "bool \<Rightarrow> nat \<Rightarrow> nat \<Rightarrow> vec field \<Rightarrow> real field" where
  "divergence bounce w h vel =
     tabulate w h (\<lambda>x y.
       fst (cellScale w h)
         * ((fst (neighbour_velocity bounce w h vel (int x + 1) (int y))
             - fst (neighbour_velocity bounce w h vel (int x - 1) (int y))) / 2)
       + snd (cellScale w h)
         * ((snd (neighbour_velocity bounce w h vel (int x) (int y + 1))
             - snd (neighbour_velocity bounce w h vel (int x) (int y - 1))) / 2))"

text \<open>
  Modelled from the spec: the pressure of a neighbour (4.6, 4.7); one outside the grid is
  the mirrored or the edge texel.
\<close>

definition neighbour_pressure :: "bool \<Rightarrow> nat \<Rightarrow> nat \<Rightarrow> real field \<Rightarrow> int \<Rightarrow> int \<Rightarrow> real" where
  "neighbour_pressure bounce w h p i j =
     texel 0 p (sample_index bounce w i) (sample_index bounce h j)"

text \<open>
  Modelled from the spec: one Jacobi pass of the Poisson solve (4.6): the average of the
  four neighbours minus the local divergence scaled by the squared grid spacing.
\<close>

definition poisson_pass ::
  "real \<Rightarrow> bool \<Rightarrow> nat \<Rightarrow> nat \<Rightarrow> real field \<Rightarrow> real field \<Rightarrow> real field" where
  "poisson_pass spacing2 bounce w h dv p =
     tabulate w h (\<lambda>x y.
       (neighbour_pressure bounce w h p (int x - 1) (int y)
        + neighbour_pressure bounce w h p (int x + 1) (int y)
        + neighbour_pressure bounce w h p (int x) (int y - 1)
        + neighbour_pressure bounce w h p (int x) (int y + 1)) / 4
       - spacing2 * texel 0 dv x y)"

text \<open>
  Modelled from the spec: the loop of the pressure stage (4.6). It counts down the
  iterations that remain and counts up the passes it has run; nothing in it looks at the
  residual. It returns the last iterate and the number of passes run.
\<close>

fun poisson_loop ::
  "nat \<Rightarrow> (real field \<Rightarrow> real field) \<Rightarrow> real field \<Rightarrow> nat \<Rightarrow> real field \<times> nat" where
  "poisson_loop 0 pass p passes_run = (p, passes_run)"
| "poisson_loop (Suc n) pass p passes_run = poisson_loop n pass (pass p) (Suc passes_run)"

text \<open>
  Modelled from the spec: the projection subtracts the gradient of the pressure, scaled by
  the cell scale, from the velocity (4.7).
\<close>

definition projection :: "bool \<Rightarrow> nat \<Rightarrow> nat \<Rightarrow> vec field \<Rightarrow> real field \<Rightarrow> vec field" where
  "projection bounce w h vel p =
     tabulate w h (\<lambda>x y.
       vsub (texel (0, 0) vel x y)
         (vmul (cellScale w h)
            ((neighbour_pressure bounce w h p (int x + 1) (int y)
              - neighbour_pressure bounce w h p (int x - 1) (int y)) / 2,
             (neighbour_pressure bounce w h p (int x) (int y + 1)
              - neighbour_pressure bounce w h p (int x) (int y - 1)) / 2)))"

text \<open>
  Modelled from the spec: the parameter snapshot a frame works with (3, 4.9), the
  iteration counts as natural numbers.
\<close>

record snapshot =
  snap_dt :: real
  snap_isBFECC :: bool
  snap_mouseForce :: real
  snap_cursorSize :: real
  snap_viscosity :: real
  snap_poissonIterations :: nat
  snap_viscousIterations :: nat
  snap_isBounce :: bool

text \<open>
  Modelled from the spec: the choices left to the implementer (9): the falloff curve of
  the pointer force and the squared grid spacing of the Poisson solve.
\<close>

record choices =
  falloff :: "real \<Rightarrow> real"
  spacing_squared :: real

text \<open>
  Modelled from the spec: what the orchestrator keeps from frame to frame (9): the grid
  dimensions, the velocity and the pressure.
\<close>

record simulation =
  grid_width :: nat
  grid_height :: nat
  velocity :: "vec field"
  pressure :: "real field"


text \<open>
  Modelled from the spec: the velocity after advection, force injection and viscous
  diffusion (2), which the divergence and the projection work on.
\<close>

definition diffused_velocity :: "choices \<Rightarrow> snapshot \<Rightarrow> Pointer \<Rightarrow> simulation \<Rightarrow> vec field" where
  "diffused_velocity ch cfg ptr s =
     viscous_diffusion (snap_viscousIterations cfg) (snap_isBounce cfg) (snap_viscosity cfg)
       (snap_dt cfg) (grid_width s) (grid_height s)
       (external_force (falloff ch) (snap_mouseForce cfg) (snap_cursorSize cfg) ptr
          (grid_width s) (grid_height s)
          (advection (snap_isBFECC cfg) (snap_isBounce cfg) (snap_dt cfg)
             (grid_width s) (grid_height s) (velocity s)))"

text \<open>
  Modelled from the spec: the pressure stage of a frame (4.6). Its first iterate is the
  pressure the orchestrator kept from the frame before.
\<close>

definition pressure_stage :: "choices \<Rightarrow> snapshot \<Rightarrow> Pointer \<Rightarrow> simulation \<Rightarrow> real field \<times> nat" where
  "pressure_stage ch cfg ptr s =
     poisson_loop (snap_poissonIterations cfg)
       (poisson_pass (spacing_squared ch) (snap_isBounce cfg) (grid_width s) (grid_height s)
          (divergence (snap_isBounce cfg) (grid_width s) (grid_height s)
             (diffused_velocity ch cfg ptr s)))
       (pressure s) 0"

text \<open>
  Modelled from the spec: one frame (2): advection, force injection, viscous diffusion,
  divergence, pressure solve, projection. The colour stage only observes (4.8) and is left
  out.
\<close>

definition frame_step :: "choices \<Rightarrow> snapshot \<Rightarrow> Pointer \<Rightarrow> simulation \<Rightarrow> simulation" where
  "frame_step ch cfg ptr s =
     s\<lparr>velocity :=
          projection (snap_isBounce cfg) (grid_width s) (grid_height s)
            (diffused_velocity ch cfg ptr s) (fst (pressure_stage ch cfg ptr s)),
       pressure := fst (pressure_stage ch cfg ptr s)\<rparr>"


section \<open>Failure handling of the orchestrator, from the specification\<close>






section \<open>Properties of the store\<close>

lemmas setter_defs =
  setResolution_def setDt_def setIsBFECC_def setMouseForce_def setCursorSize_def
  setViscosity_def setPoissonIterations_def setViscousIterations_def setIsBounce_def

lemmas store_defs = set_state_def no_keys_def pick_def

text \<open>
  C9. Every setter of the store replaces exactly the field it is named after by the value
  it is given; the other eight parameter fields keep their values. Stated for every value
  and every store state, one equation per setter.
\<close>

theorem setters_frame:
  "setResolution r s = s\<lparr>resolution := r\<rparr>
   \<and> setDt d s = s\<lparr>dt := d\<rparr>
   \<and> setIsBFECC b s = s\<lparr>isBFECC := b\<rparr>
   \<and> setMouseForce f s = s\<lparr>mouseForce := f\<rparr>
   \<and> setCursorSize c s = s\<lparr>cursorSize := c\<rparr>
   \<and> setViscosity v s = s\<lparr>viscosity := v\<rparr>
   \<and> setPoissonIterations p s = s\<lparr>poissonIterations := p\<rparr>
   \<and> setViscousIterations q s = s\<lparr>viscousIterations := q\<rparr>
   \<and> setIsBounce e s = s\<lparr>isBounce := e\<rparr>"
  by (simp add: setter_defs store_defs)






section \<open>Properties of the error boundary\<close>

lemma run_after_catch:
  "state (run (step b (ChildThrows e i)) evs) = \<lparr>hasError = True, error = Some (last_thrown e evs)\<rparr>"
proof (induction evs arbitrary: b e i)
  case Nil
  show ?case by (simp add: run_def getDerivedStateFromError_def)
next
  case (Cons ev evs)
  show ?case
  proof (cases ev)
    case (ChildThrows e' i')
    with Cons.IH [of "step b (ChildThrows e i)" e' i'] show ?thesis by (simp add: run_def)
  next
    case Rerender
    with Cons.IH [of b e i] show ?thesis by (simp add: run_def)
  qed
qed

text \<open>
  C10. Once the boundary has caught an error, whatever happens to it afterwards (re-renders,
  further catches), \<open>hasError\<close> is true and every render returns the fallback card and
  not the children. The card shows the message of the error the boundary holds (the caught
  one, or the last one caught after it), or \<open>An error occurred in the fluid simulation.\<close>
  when that message is absent or empty, and its one action is the button that reloads the
  page.
\<close>

theorem caught_error_is_permanent:
  "hasError (state (run (step b (ChildThrows e i)) evs))
   \<and> render ps (state (run (step b (ChildThrows e i)) evs)) =
       Card \<lparr>icon = ''error'', title = ''Something went wrong'',
             description =
               (case message (last_thrown e evs) of
                  None \<Rightarrow> ''An error occurred in the fluid simulation.''
                | Some m \<Rightarrow> if m = [] then ''An error occurred in the fluid simulation.'' else m),
             action = \<lparr>intent = ''primary'', onClick = WindowLocationReload,
                        button_text = ''Reload Page''\<rparr>\<rparr>
   \<and> render ps (state (run (step b (ChildThrows e i)) evs)) \<noteq> Children (children ps)"
  by (simp add: run_after_catch render_def description_of_def del: step.simps)



section \<open>Properties of the simulation component\<close>

lemma FluidSimulation_mounted:
  "FluidSimulation viewport (Some h, store) = ((Some h, store), passes h)"
  by (simp add: FluidSimulation_def use_hooks_def)

lemma FluidSimulation_first:
  "FluidSimulation viewport (None, store) =
     ((Some \<lparr>screenWidth = width viewport, screenHeight = height viewport,
              fbo_vel_0 = length store, fbo_vel_1 = Suc (length store), gl_autoClear = False\<rparr>,
       store @ [\<lparr>rt_width = width viewport * sim_resolution,
                  rt_height = height viewport * sim_resolution, rt_options = FBOSettings\<rparr>,
                \<lparr>rt_width = width viewport * sim_resolution,
                  rt_height = height viewport * sim_resolution, rt_options = FBOSettings\<rparr>]),
      passes \<lparr>screenWidth = width viewport, screenHeight = height viewport,
              fbo_vel_0 = length store, fbo_vel_1 = Suc (length store), gl_autoClear = False\<rparr>)"
  by (simp add: FluidSimulation_def use_hooks_def new_WebGLRenderTarget_def Let_def)

lemma foldl_mounted:
  "foldl (\<lambda>r viewport. FluidSimulation viewport (fst r)) ((Some h, store), passes h) viewports
     = ((Some h, store), passes h)"
  by (induction viewports) (simp_all add: FluidSimulation_mounted)

lemma renders_eq:
  "renders store viewport viewports =
     ((Some \<lparr>screenWidth = width viewport, screenHeight = height viewport,
              fbo_vel_0 = length store, fbo_vel_1 = Suc (length store), gl_autoClear = False\<rparr>,
       store @ [\<lparr>rt_width = width viewport * sim_resolution,
                  rt_height = height viewport * sim_resolution, rt_options = FBOSettings\<rparr>,
                \<lparr>rt_width = width viewport * sim_resolution,
                  rt_height = height viewport * sim_resolution, rt_options = FBOSettings\<rparr>]),
      passes \<lparr>screenWidth = width viewport, screenHeight = height viewport,
              fbo_vel_0 = length store, fbo_vel_1 = Suc (length store), gl_autoClear = False\<rparr>)"
  unfolding renders_def FluidSimulation_first by (rule foldl_mounted)

lemma tick_fold:
  "tick exec els (buffers, trace) =
     (fold exec els buffers,
      trace @ concat (map (\<lambda>el. [Begins (stage_of (program el)), WritesVisible (stage_of (program el))]) els))"
  by (induction els arbitrary: buffers trace) simp_all

lemma stages_of_passes:
  "map (\<lambda>el. stage_of (program el)) (passes h) =
     [Advection, ForceInjection, ViscousDiffusion, Divergence, PressureSolve, Projection,
      ColorVisualization]"
  by (simp add: passes_def)

text \<open>
  C1. On every frame, that is after the first render and any number of later renders, the
  fragment lists the stages in the order advection, force injection, viscous diffusion,
  divergence, pressure solve, projection, colour. The tick applies the stages to the
  buffers in exactly this order, each stage once and on its own, and a stage begins only
  after the writes of the stage before it are complete.
\<close>

theorem stages_in_fixed_order:
  "map (\<lambda>el. stage_of (program el)) (snd (renders store viewport viewports)) =
     [Advection, ForceInjection, ViscousDiffusion, Divergence, PressureSolve, Projection,
      ColorVisualization]
   \<and> tick exec (snd (renders store viewport viewports)) (buffers, []) =
       (fold exec (snd (renders store viewport viewports)) buffers,
        [Begins Advection, WritesVisible Advection,
         Begins ForceInjection, WritesVisible ForceInjection,
         Begins ViscousDiffusion, WritesVisible ViscousDiffusion,
         Begins Divergence, WritesVisible Divergence,
         Begins PressureSolve, WritesVisible PressureSolve,
         Begins Projection, WritesVisible Projection,
         Begins ColorVisualization, WritesVisible ColorVisualization])"
proof -
  have "concat (map (\<lambda>el. [Begins (stage_of (program el)), WritesVisible (stage_of (program el))])
          (passes h)) =
        [Begins Advection, WritesVisible Advection,
         Begins ForceInjection, WritesVisible ForceInjection,
         Begins ViscousDiffusion, WritesVisible ViscousDiffusion,
         Begins Divergence, WritesVisible Divergence,
         Begins PressureSolve, WritesVisible PressureSolve,
         Begins Projection, WritesVisible Projection,
         Begins ColorVisualization, WritesVisible ColorVisualization]" for h
    by (simp add: passes_def)
  then show ?thesis
    by (simp add: renders_eq tick_fold stages_of_passes)
qed

lemma reads_passes:
  "map reads (passes h) = [[fbo_vel_0 h], [], [fbo_vel_1 h], [], [], [], [fbo_vel_0 h]]"
  by (simp add: passes_def reads_def target_prop_def)

lemma writes_passes:
  "map writes (passes h) = [[fbo_vel_1 h], [fbo_vel_1 h], [], [], [], [], []]"
  by (simp add: passes_def writes_def target_prop_def)

lemma takes_in_passes:
  "map takes_in (passes h) =
     [[fbo_vel_0 h], [fbo_vel_1 h], [fbo_vel_1 h], [], [], [], [fbo_vel_0 h]]"
  by (simp add: passes_def takes_in_def reads_def writes_def target_prop_def)

text \<open>
  C5, as stated, fails at the external force stage. After advection has read the render
  target at address 0 and written the one at address 1, the roles would be swapped and the
  next stage would write address 0. The force pass writes address 1 again: it is handed no
  source, its one buffer is the destination, and that buffer holds its input, the advected
  velocity, which the viscous pass reads from there afterwards. The buffer the force stage
  takes in and the buffer it writes are the same.
\<close>

theorem force_stage_counterexample:
  "program (snd (renders [] \<lparr>width = 1000, height = 500\<rparr> []) ! 1) = ExternalForceProgram
   \<and> writes (snd (renders [] \<lparr>width = 1000, height = 500\<rparr> []) ! 0) = [1]
   \<and> reads (snd (renders [] \<lparr>width = 1000, height = 500\<rparr> []) ! 1) = []
   \<and> takes_in (snd (renders [] \<lparr>width = 1000, height = 500\<rparr> []) ! 1) = [1]
   \<and> writes (snd (renders [] \<lparr>width = 1000, height = 500\<rparr> []) ! 1) = [1]
   \<and> reads (snd (renders [] \<lparr>width = 1000, height = 500\<rparr> []) ! 2) = [1]"
  by (simp add: renders_eq passes_def takes_in_def reads_def writes_def target_prop_def)

text \<open>
  C5, amended. On every frame the passes are wired the same way. Advection reads
  \<open>fbo_vel_0\<close> and writes \<open>fbo_vel_1\<close>, two different render targets. The external
  force stage is given no source: its only buffer is its destination \<open>fbo_vel_1\<close>, the
  buffer advection has just written, which it takes in and updates in place, and no roles
  are swapped in between. The viscous pass reads \<open>fbo_vel_1\<close> and the colour pass reads
  \<open>fbo_vel_0\<close>; the component gives no other pass a buffer.
\<close>

theorem force_stage_in_place:
  "map reads (snd (renders store viewport viewports)) =
     [[length store], [], [Suc (length store)], [], [], [], [length store]]
   \<and> map takes_in (snd (renders store viewport viewports)) =
     [[length store], [Suc (length store)], [Suc (length store)], [], [], [], [length store]]
   \<and> map writes (snd (renders store viewport viewports)) =
     [[Suc (length store)], [Suc (length store)], [], [], [], [], []]
   \<and> length store \<noteq> Suc (length store)"
  by (simp add: renders_eq reads_passes takes_in_passes writes_passes)

text \<open>
  C6, as stated, fails. After a mount at 1000 by 500 and a render at 2000 by 1000 the two
  buffers are still the 400 by 200 ones of the mount, where the claim has 800 by 400; and a
  mount at 1001 by 501 gives buffers of 400.4 by 200.4, which is not the floor.
\<close>

theorem resize_counterexample:
  "map (\<lambda>t. (rt_width t, rt_height t))
       (snd (fst (renders [] \<lparr>width = 1000, height = 500\<rparr> [\<lparr>width = 2000, height = 1000\<rparr>])))
     = [(400, 200), (400, 200)]
   \<and> (of_int \<lfloor>2000 * sim_resolution\<rfloor>, of_int \<lfloor>1000 * sim_resolution\<rfloor>) = (800 :: real, 400 :: real)
   \<and> map (\<lambda>t. (rt_width t, rt_height t))
       (snd (fst (renders [] \<lparr>width = 1001, height = 501\<rparr> [])))
     = [(400.4, 200.4), (400.4, 200.4)]
   \<and> (of_int \<lfloor>1001 * sim_resolution\<rfloor>, of_int \<lfloor>501 * sim_resolution\<rfloor>) = (400 :: real, 200 :: real)"
  by (simp add: renders_eq sim_resolution_def)

text \<open>
  C6, amended. The grid dimensions are derived once, at the first render, as the viewport
  width and height of that moment times the constant resolution 0.4, with no rounding. The
  two velocity buffers are allocated then, with these dimensions, after whatever the store
  of render targets already holds. Every later render, whatever the viewport has become,
  returns the same two buffers with the same dimensions and the same \<open>fboSize\<close>: nothing
  is released or allocated again, so after any sequence of viewport changes the dimensions
  are exactly the original ones.
\<close>

theorem buffers_allocated_once:
  "fst (renders store viewport viewports) =
     (Some \<lparr>screenWidth = width viewport, screenHeight = height viewport,
             fbo_vel_0 = length store, fbo_vel_1 = Suc (length store), gl_autoClear = False\<rparr>,
      store @ [\<lparr>rt_width = width viewport * 0.4, rt_height = height viewport * 0.4,
                 rt_options = FBOSettings\<rparr>,
               \<lparr>rt_width = width viewport * 0.4, rt_height = height viewport * 0.4,
                 rt_options = FBOSettings\<rparr>])
   \<and> map_of (props (hd (snd (renders store viewport viewports)))) ''fboSize'' =
       Some (Arr [Some (width viewport * 0.4), Some (height viewport * 0.4)])"
  by (simp add: renders_eq passes_def sim_resolution_def)

section \<open>Properties of the modelled pipeline\<close>















lemma poisson_loop_eq: "poisson_loop n pass p k = ((pass ^^ n) p, k + n)"
  by (induction n arbitrary: p k) (simp_all add: funpow_swap1)












text \<open>
  C4. The pressure stage of a frame applies the Jacobi pass exactly \<open>poissonIterations\<close>
  times, whatever the iterates are, and the count of passes it reports is that number: there
  is no exit on convergence. Its first iterate is the pressure the state holds, and the
  frame stores its last iterate there; so the solve of the next frame starts from the
  result of this one and not from a zero field.
\<close>

theorem pressure_stage_passes_and_warm_start:
  "pressure_stage ch cfg ptr s =
     ((poisson_pass (spacing_squared ch) (snap_isBounce cfg) (grid_width s) (grid_height s)
         (divergence (snap_isBounce cfg) (grid_width s) (grid_height s)
            (diffused_velocity ch cfg ptr s))
       ^^ snap_poissonIterations cfg) (pressure s),
      snap_poissonIterations cfg)
   \<and> pressure (frame_step ch cfg ptr s) = fst (pressure_stage ch cfg ptr s)
   \<and> fst (pressure_stage ch cfg' ptr' (frame_step ch cfg ptr s)) =
       (poisson_pass (spacing_squared ch) (snap_isBounce cfg')
          (grid_width s) (grid_height s)
          (divergence (snap_isBounce cfg') (grid_width s) (grid_height s)
             (diffused_velocity ch cfg' ptr' (frame_step ch cfg ptr s)))
        ^^ snap_poissonIterations cfg') (fst (pressure_stage ch cfg ptr s))"
  by (simp add: pressure_stage_def poisson_loop_eq frame_step_def)

section \<open>Properties of the modelled failure handling\<close>




end
